theory Spec2Isabelle
  imports Complex_Main "HOL-Library.Finite_Map" "HOL-Library.Log_Nat"
begin

section \<open>Python values used by process-photos.py\<close>

text \<open>
  Exceptions are values.  Only the exception classes that the script can meet on the paths
  modelled here are listed.
\<close>

datatype error =
    OverflowError
  | ValueError
  | FileNotFoundError
  | UnidentifiedImageError
  | InvalidImageDataError
  | AttributeError
  | OSError
  | StructError
  | ZoneInfoNotFoundError

subsection \<open>datetime\<close>

text \<open>
  A \<^verbatim>\<open>datetime\<close> is a point of the proleptic Gregorian time line.  It is kept as the number of
  microseconds since the midnight that begins day number 0 (day number 1 is 0001-01-01, as in
  \<^verbatim>\<open>date.toordinal\<close>).  In the script every datetime is either naive or UTC-aware and is
  only ever read as UTC, so the \<^verbatim>\<open>tzinfo\<close> field is not kept.
  The calendar functions below are those of CPython's \<^verbatim>\<open>datetime\<close> module.
\<close>

datatype datetime = Datetime int

definition us_per_day :: int where
  "us_per_day = 86400000000"

definition us_per_hour :: int where
  "us_per_hour = 3600000000"

fun micros :: "datetime \<Rightarrow> int" where
  "micros (Datetime n) = n"

definition toordinal :: "datetime \<Rightarrow> int" where
  "toordinal d = micros d div us_per_day"

definition is_leap :: "int \<Rightarrow> bool" where
  "is_leap y = (y mod 4 = 0 \<and> (y mod 100 \<noteq> 0 \<or> y mod 400 = 0))"

definition days_before_year :: "int \<Rightarrow> int" where
  "days_before_year year =
     (let y = year - 1 in y * 365 + y div 4 - y div 100 + y div 400)"

definition days_in_month :: "int \<Rightarrow> int \<Rightarrow> int" where
  "days_in_month year month =
     (if month = 2 \<and> is_leap year then 29
      else [0, 31, 28, 31, 30, 31, 30, 31, 31, 30, 31, 30, 31] ! nat month)"

definition days_before_month :: "int \<Rightarrow> int \<Rightarrow> int" where
  "days_before_month year month =
     [0, 0, 31, 59, 90, 120, 151, 181, 212, 243, 273, 304, 334] ! nat month
       + (if month > 2 \<and> is_leap year then 1 else 0)"

definition ymd2ord :: "int \<Rightarrow> int \<Rightarrow> int \<Rightarrow> int" where
  "ymd2ord year month day = days_before_year year + days_before_month year month + day"

text \<open>\<^verbatim>\<open>_ord2ymd\<close>: ordinal to (year, month, day).\<close>

definition ord2ymd :: "int \<Rightarrow> int \<times> int \<times> int" where
  "ord2ymd n0 =
     (let n = n0 - 1;
          n400 = n div 146097; n = n mod 146097;
          year = n400 * 400 + 1;
          n100 = n div 36524; n = n mod 36524;
          n4 = n div 1461; n = n mod 1461;
          n1 = n div 365; n = n mod 365;
          year = year + n100 * 100 + n4 * 4 + n1
      in if n1 = 4 \<or> n100 = 4 then (year - 1, 12, 31)
         else
           let leapyear = (n1 = 3 \<and> (n4 \<noteq> 24 \<or> n100 = 3));
               month = (n + 50) div 32;
               preceding = [0, 0, 31, 59, 90, 120, 151, 181, 212, 243, 273, 304, 334] ! nat month
                             + (if month > 2 \<and> leapyear then 1 else 0)
           in if preceding > n
              then
                let month = month - 1;
                    preceding = preceding -
                      ([0, 31, 28, 31, 30, 31, 30, 31, 31, 30, 31, 30, 31] ! nat month
                         + (if month = 2 \<and> leapyear then 1 else 0))
                in (year, month, n - preceding + 1)
              else (year, month, n - preceding + 1))"

text \<open>\<^verbatim>\<open>datetime(year, month, day, hour, minute, second, microsecond)\<close>.\<close>

definition datetime_of :: "int \<Rightarrow> int \<Rightarrow> int \<Rightarrow> int \<Rightarrow> int \<Rightarrow> int \<Rightarrow> int \<Rightarrow> datetime" where
  "datetime_of y m d h mi s us =
     Datetime (ymd2ord y m d * us_per_day + ((h * 60 + mi) * 60 + s) * 1000000 + us)"

definition dt_year :: "datetime \<Rightarrow> int" where
  "dt_year d = fst (ord2ymd (toordinal d))"

definition dt_month :: "datetime \<Rightarrow> int" where
  "dt_month d = fst (snd (ord2ymd (toordinal d)))"

definition dt_day :: "datetime \<Rightarrow> int" where
  "dt_day d = snd (snd (ord2ymd (toordinal d)))"

definition dt_hour :: "datetime \<Rightarrow> int" where
  "dt_hour d = (micros d mod us_per_day) div us_per_hour"

definition dt_minute :: "datetime \<Rightarrow> int" where
  "dt_minute d = (micros d mod us_per_hour) div 60000000"

definition dt_second :: "datetime \<Rightarrow> int" where
  "dt_second d = (micros d mod 60000000) div 1000000"

text \<open>\<^verbatim>\<open>d.weekday()\<close>: Monday is 0, Sunday is 6.\<close>

definition weekday :: "datetime \<Rightarrow> int" where
  "weekday d = (toordinal d + 6) mod 7"

text \<open>\<^verbatim>\<open>d.replace(hour=h, minute=0, second=0, microsecond=0)\<close>.\<close>

definition replace_hour :: "datetime \<Rightarrow> int \<Rightarrow> datetime" where
  "replace_hour d h = Datetime (toordinal d * us_per_day + h * us_per_hour)"

text \<open>
  \<^verbatim>\<open>d - timedelta(days=1)\<close>.  The script applies it only to the 31st of March or October and
  at most six times, which never leaves the range of \<^verbatim>\<open>datetime\<close>; the range check of the
  library is therefore left out here (it is kept in \<open>datetime_add\<close>).
\<close>

definition minus_one_day :: "datetime \<Rightarrow> datetime" where
  "minus_one_day d = Datetime (micros d - us_per_day)"

text \<open>
  \<^verbatim>\<open>d + timedelta(...)\<close> with the library's range check: the result must lie in the years
  1 to 9999 (ordinals 1 to 3652059), otherwise \<^verbatim>\<open>OverflowError\<close> is raised.
\<close>

definition datetime_add :: "datetime \<Rightarrow> int \<Rightarrow> error + datetime" where
  "datetime_add d delta =
     (let n = micros d + delta
      in if 0 < n div us_per_day \<and> n div us_per_day \<le> 3652059
         then Inr (Datetime n) else Inl OverflowError)"

definition dt_le :: "datetime \<Rightarrow> datetime \<Rightarrow> bool" where
  "dt_le a b = (micros a \<le> micros b)"

definition dt_less :: "datetime \<Rightarrow> datetime \<Rightarrow> bool" where
  "dt_less a b = (micros a < micros b)"

subsection \<open>The timezone database\<close>

text \<open>
  The module-level name \<^verbatim>\<open>ZoneInfo\<close> is the class imported from \<^verbatim>\<open>zoneinfo\<close> (or from
  \<^verbatim>\<open>backports.zoneinfo\<close>) and is \<^verbatim>\<open>None\<close> when both imports fail.  Neither the class nor
  the database it reads is part of the repository, so the class is a parameter: called with
  a key it either raises (\<^verbatim>\<open>ZoneInfoNotFoundError\<close> when the module is there but no database
  holds the key) or returns a \<^verbatim>\<open>tzinfo\<close>.  A \<^verbatim>\<open>tzinfo\<close> \<open>tz\<close> is kept as its offset function:
  \<open>tz t\<close> is the UTC offset in microseconds that the zone has at the UTC instant \<open>t\<close>.
\<close>

type_synonym tzinfo = "datetime \<Rightarrow> int"

type_synonym zoneinfo = "string \<Rightarrow> error + tzinfo"

section \<open>The timezone normalizer\<close>

text \<open>
  The two \<^verbatim>\<open>while d.weekday() != 6: d -= timedelta(days=1)\<close> loops of
  \<^verbatim>\<open>_utc_to_german_time\<close>.
\<close>

lemma sunday_iff: "((q::int) + 6) mod 7 = 6 \<longleftrightarrow> q mod 7 = 0"
  by presburger

lemma mod7_pred: "(q::int) mod 7 \<noteq> 0 \<Longrightarrow> (q - 1) mod 7 = q mod 7 - 1"
proof -
  assume a: "q mod 7 \<noteq> 0"
  have "(q - 1) mod 7 = (q mod 7 - 1) mod 7" by (simp add: mod_diff_left_eq)
  also have "\<dots> = q mod 7 - 1"
    using a pos_mod_sign[of 7 q] pos_mod_bound[of 7 q] by (intro mod_pos_pos_trivial) linarith+
  finally show ?thesis .
qed

lemma div_day_pred: "(n - us_per_day) div us_per_day = n div us_per_day - 1"
  by (simp add: us_per_day_def)

function last_sunday :: "datetime \<Rightarrow> datetime" where
  "last_sunday d = (if weekday d \<noteq> 6 then last_sunday (minus_one_day d) else d)"
  by pat_completeness auto
termination
proof (relation "measure (\<lambda>d. nat (toordinal d mod 7))")
  show "wf (measure (\<lambda>d. nat (toordinal d mod 7)))" by simp
next
  fix d :: datetime
  assume w: "weekday d \<noteq> 6"
  obtain n where d: "d = Datetime n" by (cases d)
  from w have nz: "(n div us_per_day) mod 7 \<noteq> 0"
    by (simp add: weekday_def toordinal_def d sunday_iff)
  have "0 \<le> (n div us_per_day) mod 7" by simp
  with nz show "(minus_one_day d, d) \<in> measure (\<lambda>d. nat (toordinal d mod 7))"
    by (simp add: minus_one_day_def toordinal_def d div_day_pred mod7_pred)
qed

declare last_sunday.simps [simp del]

text \<open>
  \<^verbatim>\<open>_utc_to_german_time(dt_utc)\<close>.  The first argument is the module-level name
  \<^verbatim>\<open>ZoneInfo\<close>.  When it is not \<^verbatim>\<open>None\<close> the zone is looked up first: a failing lookup
  raises out of the function and the rule is never tried; otherwise \<^verbatim>\<open>astimezone\<close> adds the
  zone's offset (and raises \<^verbatim>\<open>OverflowError\<close> out of range).  Only when \<^verbatim>\<open>ZoneInfo\<close> is
  \<^verbatim>\<open>None\<close> is the offset computed from the rule.
\<close>

definition utc_to_german_time :: "zoneinfo option \<Rightarrow> datetime \<Rightarrow> error + datetime" where
  "utc_to_german_time ZoneInfo dt_utc =
     (case ZoneInfo of
        Some zone_info \<Rightarrow>
          (case zone_info ''Europe/Berlin'' of
             Inl ex \<Rightarrow> Inl ex
           | Inr german_tz \<Rightarrow> datetime_add dt_utc (german_tz dt_utc))
      | None \<Rightarrow>
          (let dt_naive = dt_utc;
               year = dt_year dt_naive;
               march_last = last_sunday (datetime_of year 3 31 0 0 0 0);
               dst_start = replace_hour march_last 2;
               october_last = last_sunday (datetime_of year 10 31 0 0 0 0);
               dst_end = replace_hour october_last 1;
               is_dst = (dt_le dst_start dt_naive \<and> dt_less dt_naive dst_end);
               offset_hours = (if is_dst then 2 else 1)
           in datetime_add dt_naive (offset_hours * us_per_hour)))"

subsection \<open>The daylight-saving window, as the specification words it\<close>

text \<open>
  Day \<open>d\<close> of month \<open>m\<close> of year \<open>y\<close> is the last Sunday of that month: it is a Sunday,
  it is a day of the month, and a week later the month is over.
\<close>

definition is_last_sunday :: "int \<Rightarrow> int \<Rightarrow> int \<Rightarrow> bool" where
  "is_last_sunday y m d =
     (weekday (datetime_of y m d 0 0 0 0) = 6 \<and> 1 \<le> d \<and> d \<le> days_in_month y m
        \<and> days_in_month y m < d + 7)"

text \<open>
  The window of the year of \<open>t\<close>: from 02:00 UTC on the last Sunday of March (inclusive) to
  01:00 UTC on the last Sunday of October (exclusive).
\<close>

definition in_dst_window :: "datetime \<Rightarrow> bool" where
  "in_dst_window t =
     (let y = dt_year t
      in \<exists>dm \<in> set [1..31]. \<exists>dx \<in> set [1..31].
           is_last_sunday y 3 dm \<and> is_last_sunday y 10 dx
             \<and> dt_le (datetime_of y 3 dm 2 0 0 0) t \<and> dt_less t (datetime_of y 10 dx 1 0 0 0))"

text \<open>Two hours inside the window, one hour outside, in microseconds.\<close>

definition german_offset :: "datetime \<Rightarrow> int" where
  "german_offset t = (if in_dst_window t then 2 else 1) * us_per_hour"

text \<open>The range of \<^verbatim>\<open>datetime\<close>: years 1 to 9999.\<close>

definition representable :: "int \<Rightarrow> bool" where
  "representable n = (0 < n div us_per_day \<and> n div us_per_day \<le> 3652059)"

text \<open>
  What the IANA database holds for Europe/Berlin in 2024 (the EU rule): summer time from
  01:00 UTC on 31 March to 01:00 UTC on 27 October.  It is used only to show what the
  \<^verbatim>\<open>ZoneInfo\<close> branch returns when the database is installed.
\<close>

definition europe_berlin_2024 :: tzinfo where
  "europe_berlin_2024 t =
     (if dt_le (datetime_of 2024 3 31 1 0 0 0) t \<and> dt_less t (datetime_of 2024 10 27 1 0 0 0)
      then 2 * us_per_hour else us_per_hour)"

text \<open>The class with that database behind it, and the class with no database to read.\<close>

definition installed_database :: zoneinfo where
  "installed_database key =
     (if key = ''Europe/Berlin'' then Inr europe_berlin_2024 else Inl ZoneInfoNotFoundError)"

definition missing_database :: zoneinfo where
  "missing_database key = Inl ZoneInfoNotFoundError"

subsection \<open>The rule-based branch computes the window\<close>

lemma mod7_unique: "0 \<le> j \<Longrightarrow> j < 7 \<Longrightarrow> ((a::int) - j) mod 7 = 0 \<Longrightarrow> j = a mod 7"
proof -
  assume j: "0 \<le> j" "j < 7" and z: "(a - j) mod 7 = 0"
  have "a mod 7 = ((a - j) mod 7 + j) mod 7" by (simp add: mod_add_left_eq)
  also have "\<dots> = j" using j z by simp
  finally show ?thesis by simp
qed

lemma last_sunday_eq:
  "last_sunday (Datetime n) = Datetime (n - ((n div us_per_day) mod 7) * us_per_day)"
proof (induction k \<equiv> "nat ((n div us_per_day) mod 7)" arbitrary: n)
  case 0
  have "0 \<le> (n div us_per_day) mod 7" by simp
  with 0 have z: "(n div us_per_day) mod 7 = 0" by linarith
  then have "weekday (Datetime n) = 6" by (simp add: weekday_def toordinal_def sunday_iff)
  then show ?case using z by (subst last_sunday.simps) simp
next
  case (Suc k)
  define q where "q = n div us_per_day"
  from Suc.hyps(2) have nz: "q mod 7 \<noteq> 0" by (auto simp: q_def)
  then have w: "weekday (Datetime n) \<noteq> 6" by (simp add: weekday_def toordinal_def sunday_iff q_def)
  have q': "((n - us_per_day) div us_per_day) mod 7 = q mod 7 - 1"
    using mod7_pred[OF nz] by (simp add: div_day_pred q_def)
  have "k = nat (((n - us_per_day) div us_per_day) mod 7)"
    using Suc.hyps(2) by (simp add: q' q_def)
  from Suc.hyps(1)[OF this]
  have "last_sunday (Datetime (n - us_per_day))
          = Datetime (n - us_per_day - (q mod 7 - 1) * us_per_day)" by (simp add: q')
  moreover have "last_sunday (Datetime n) = last_sunday (Datetime (n - us_per_day))"
    using w by (subst last_sunday.simps) (simp add: minus_one_day_def)
  ultimately show ?case by (simp add: algebra_simps q_def)
qed

lemma datetime_of_midnight: "datetime_of y m d 0 0 0 0 = Datetime (ymd2ord y m d * us_per_day)"
  by (simp add: datetime_of_def)

lemma datetime_of_hour: "datetime_of y m d h 0 0 0 = Datetime (ymd2ord y m d * us_per_day + h * us_per_hour)"
  by (simp add: datetime_of_def us_per_hour_def)

lemma mult_day_div: "(a * us_per_day) div us_per_day = a"
  by (simp add: us_per_day_def)

lemma ymd2ord_day: "ymd2ord y m (d - k) = ymd2ord y m d - k"
  by (simp add: ymd2ord_def)

lemma last_sunday_month:
  "replace_hour (last_sunday (datetime_of y m 31 0 0 0 0)) h
     = datetime_of y m (31 - ymd2ord y m 31 mod 7) h 0 0 0"
  by (simp add: datetime_of_midnight last_sunday_eq mult_day_div replace_hour_def toordinal_def
        datetime_of_hour ymd2ord_day algebra_simps)

lemma days_in_month_3_10: "days_in_month y 3 = 31" "days_in_month y 10 = 31"
  by (simp_all add: days_in_month_def)

lemma is_last_sunday_iff:
  assumes "days_in_month y m = 31"
  shows "is_last_sunday y m d \<longleftrightarrow> d = 31 - ymd2ord y m 31 mod 7"
proof
  assume a: "is_last_sunday y m d"
  define j where "j = 31 - d"
  have d: "d = 31 - j" by (simp add: j_def)
  from a assms have j: "0 \<le> j" "j < 7" by (auto simp: is_last_sunday_def j_def)
  from a have "(ymd2ord y m 31 - j) mod 7 = 0"
    by (simp add: is_last_sunday_def weekday_def toordinal_def datetime_of_midnight mult_day_div
          sunday_iff d ymd2ord_day)
  from mod7_unique[OF j this] show "d = 31 - ymd2ord y m 31 mod 7" by (simp add: d)
next
  assume d: "d = 31 - ymd2ord y m 31 mod 7"
  have b: "0 \<le> ymd2ord y m 31 mod 7" "ymd2ord y m 31 mod 7 < 7" by simp_all
  have "(ymd2ord y m 31 - ymd2ord y m 31 mod 7) mod 7 = 0"
    by (simp add: mod_diff_right_eq)
  then show "is_last_sunday y m d" using b assms
    by (simp add: is_last_sunday_def weekday_def toordinal_def datetime_of_midnight mult_day_div
          sunday_iff d ymd2ord_day)
qed

lemma in_dst_window_iff:
  "in_dst_window t \<longleftrightarrow>
     dt_le (datetime_of (dt_year t) 3 (31 - ymd2ord (dt_year t) 3 31 mod 7) 2 0 0 0) t
       \<and> dt_less t (datetime_of (dt_year t) 10 (31 - ymd2ord (dt_year t) 10 31 mod 7) 1 0 0 0)"
proof -
  have r: "31 - (a::int) mod 7 \<in> set [1..31]" for a
    using pos_mod_sign[of 7 a] pos_mod_bound[of 7 a] by simp
  show ?thesis
    unfolding in_dst_window_def Let_def
    by (auto simp: is_last_sunday_iff days_in_month_3_10 r)
qed

text \<open>
  Claim C2, amended.  When the \<^verbatim>\<open>zoneinfo\<close> module cannot be imported (\<^verbatim>\<open>ZoneInfo\<close> is
  \<^verbatim>\<open>None\<close>, the only state in which the rule is used), for every UTC instant \<open>t\<close> whose
  shifted time is still a \<^verbatim>\<open>datetime\<close> (year at most 9999), the normalizer returns the civil
  time exactly one hour ahead of \<open>t\<close> when \<open>t\<close> lies outside the daylight-saving window of its
  year and exactly two hours ahead when it lies inside, the window running from 02:00 UTC on
  the last Sunday of March (inclusive) to 01:00 UTC on the last Sunday of October
  (exclusive).
\<close>

theorem utc_to_german_time_rule:
  assumes "representable (micros t + german_offset t)"
  shows "utc_to_german_time None t = Inr (Datetime (micros t + german_offset t))"
proof -
  have "utc_to_german_time None t = datetime_add t (german_offset t)"
    by (simp add: utc_to_german_time_def Let_def last_sunday_month german_offset_def
          in_dst_window_iff)
  then show ?thesis using assms by (simp add: datetime_add_def representable_def Let_def)
qed

text \<open>The instant of the scenario, 2024-07-15 12:00 UTC, becomes 14:00.\<close>

theorem utc_to_german_time_rule_witness:
  "representable (micros (datetime_of 2024 7 15 12 0 0 0) + german_offset (datetime_of 2024 7 15 12 0 0 0))
   \<and> utc_to_german_time None (datetime_of 2024 7 15 12 0 0 0) = Inr (datetime_of 2024 7 15 14 0 0 0)"
proof -
  have w: "in_dst_window (datetime_of 2024 7 15 12 0 0 0)"
    by code_simp
  have r: "representable (micros (datetime_of 2024 7 15 12 0 0 0) + german_offset (datetime_of 2024 7 15 12 0 0 0))"
    unfolding german_offset_def using w by simp code_simp
  have e: "Datetime (micros (datetime_of 2024 7 15 12 0 0 0) + german_offset (datetime_of 2024 7 15 12 0 0 0))
            = datetime_of 2024 7 15 14 0 0 0"
    unfolding german_offset_def using w by simp code_simp
  show ?thesis using utc_to_german_time_rule[OF r] r e by simp
qed

text \<open>
  Claim C2 as stated fails.  With the timezone database installed the normalizer follows the
  database: at 2024-03-31 01:30 UTC, half an hour before the window of the claim opens, it
  already returns the time two hours ahead.  In the last hour of the year 9999 nothing
  is returned: the addition raises \<^verbatim>\<open>OverflowError\<close>.  And when the module is there but no
  database is, the lookup raises and no time is returned at all.
\<close>

theorem utc_to_german_time_counterexample:
  "\<not> in_dst_window (datetime_of 2024 3 31 1 30 0 0)
   \<and> utc_to_german_time (Some installed_database) (datetime_of 2024 3 31 1 30 0 0)
        = Inr (datetime_of 2024 3 31 3 30 0 0)
   \<and> utc_to_german_time None (datetime_of 9999 12 31 23 30 0 0) = Inl OverflowError
   \<and> utc_to_german_time (Some missing_database) (datetime_of 2024 3 31 1 30 0 0)
        = Inl ZoneInfoNotFoundError"
  by code_simp


section \<open>The geocoordinate encoder\<close>

subsection \<open>Python floats\<close>

text \<open>
  A Python \<^verbatim>\<open>float\<close> is an IEEE-754 binary64 number.  It is kept as the rational number it
  denotes.  \<open>fl x\<close> is the binary64 number nearest to \<open>x\<close>, ties going to the even
  significand: it scales \<open>\<bar>x\<bar>\<close> into \<open>[2^52, 2^53)\<close>, rounds to an integer and scales back.
  Every arithmetic operation of Python on floats returns \<open>fl\<close> of the exact result.
  Subnormal numbers, infinities and NaN are left out: the magnitudes met here (coordinates,
  and differences of a few units in the last place of numbers below 2^9) are zero or lie
  well inside the normal range.
\<close>

type_synonym py_float = rat

definition pow2 :: "int \<Rightarrow> rat" where
  "pow2 e = (if 0 \<le> e then 2 ^ nat e else 1 / 2 ^ nat (- e))"

definition round_half_even :: "rat \<Rightarrow> int" where
  "round_half_even x =
     (let f = \<lfloor>x\<rfloor>; r = x - of_int f
      in if r < 1 / 2 then f else if 1 / 2 < r then f + 1 else if even f then f else f + 1)"

text \<open>For \<open>0 < a\<close>, \<open>binade a\<close> is the exponent \<open>k\<close> with \<open>2^k \<le> a < 2^(k+1)\<close>.\<close>

definition binade :: "rat \<Rightarrow> int" where
  "binade a = (if 1 \<le> a then bitlen \<lfloor>a\<rfloor> - 1 else - bitlen (\<lceil>1 / a\<rceil> - 1))"

definition fl :: "rat \<Rightarrow> py_float" where
  "fl x =
     (if x = 0 then 0
      else let e = binade \<bar>x\<bar> - 52
           in sgn x * of_int (round_half_even (\<bar>x\<bar> / pow2 e)) * pow2 e)"

definition fsub :: "py_float \<Rightarrow> py_float \<Rightarrow> py_float" where
  "fsub a b = fl (a - b)"

definition fmul :: "py_float \<Rightarrow> py_float \<Rightarrow> py_float" where
  "fmul a b = fl (a * b)"

definition fdiv :: "py_float \<Rightarrow> py_float \<Rightarrow> py_float" where
  "fdiv a b = fl (a / b)"

text \<open>\<^verbatim>\<open>int(x)\<close> on a float truncates toward zero.\<close>

definition py_int :: "py_float \<Rightarrow> int" where
  "py_int x = (if 0 \<le> x then \<lfloor>x\<rfloor> else \<lceil>x\<rceil>)"

subsection \<open>Degrees, minutes, seconds\<close>

text \<open>
  \<^verbatim>\<open>_convert_to_degrees(value)\<close>.  \<open>value\<close> is a float; the integers \<open>d\<close> and \<open>m\<close> are
  converted to float exactly when they meet one (they are far below 2^53), and \<^verbatim>\<open>m/60\<close>
  is the true division of two integers.
\<close>

type_synonym rational = "int \<times> int"

type_synonym dms = "rational \<times> rational \<times> rational"

definition convert_to_degrees :: "py_float \<Rightarrow> dms" where
  "convert_to_degrees v =
     (let d = py_int v;
          m = py_int (fmul (fsub v (of_int d)) 60);
          s = fmul (fsub (fsub v (of_int d)) (fdiv (of_int m) 60)) 3600
      in ((d, 1), (m, 1), (py_int (fmul s 100), 100)))"

text \<open>The degrees that a reader of the three rationals reconstructs.\<close>

fun rational_value :: "rational \<Rightarrow> rat" where
  "rational_value (n, d) = of_int n / of_int d"

fun dms_degrees :: "dms \<Rightarrow> rat" where
  "dms_degrees (d, m, s) = rational_value d + rational_value m / 60 + rational_value s / 3600"


section \<open>Strings and paths\<close>

subsection \<open>Formatting and splitting\<close>

text \<open>\<^verbatim>\<open>str(n)\<close> for a non-negative integer: its decimal digits.\<close>

definition digit_char :: "nat \<Rightarrow> char" where
  "digit_char d = ''0123456789'' ! d"

fun str_nat :: "nat \<Rightarrow> string" where
  "str_nat n = (if n < 10 then [digit_char n] else str_nat (n div 10) @ [digit_char (n mod 10)])"

declare str_nat.simps [simp del]

text \<open>
  The directives \<^verbatim>\<open>%m\<close>, \<^verbatim>\<open>%d\<close>, \<^verbatim>\<open>%H\<close>, \<^verbatim>\<open>%M\<close>, \<^verbatim>\<open>%S\<close> of \<^verbatim>\<open>strftime\<close> print a
  decimal number padded with zeros to two digits.  \<^verbatim>\<open>%Y\<close> is left to the C library: some
  pad the year to four digits, others print a year before 1000 as it is, so the padding of
  the year is a parameter.
\<close>

definition zfill :: "nat \<Rightarrow> string \<Rightarrow> string" where
  "zfill w s = replicate (w - length s) CHR ''0'' @ s"

definition fmt_int :: "nat \<Rightarrow> int \<Rightarrow> string" where
  "fmt_int w n = zfill w (str_nat (nat n))"

definition fmt_year :: "bool \<Rightarrow> int \<Rightarrow> string" where
  "fmt_year padded y = (if padded then fmt_int 4 y else str_nat (nat y))"

text \<open>\<^verbatim>\<open>d.strftime("%Y-%m-%dT%H-%M-%S")\<close>, the \<^verbatim>\<open>time_str\<close> of the file names.\<close>

definition strftime_file :: "bool \<Rightarrow> datetime \<Rightarrow> string" where
  "strftime_file padded d =
     fmt_year padded (dt_year d) @ ''-'' @ fmt_int 2 (dt_month d) @ ''-'' @ fmt_int 2 (dt_day d) @ ''T''
       @ fmt_int 2 (dt_hour d) @ ''-'' @ fmt_int 2 (dt_minute d) @ ''-'' @ fmt_int 2 (dt_second d)"

text \<open>\<^verbatim>\<open>d.strftime("%Y:%m:%d %H:%M:%S")\<close>, the EXIF form.\<close>

definition strftime_exif :: "bool \<Rightarrow> datetime \<Rightarrow> string" where
  "strftime_exif padded d =
     fmt_year padded (dt_year d) @ '':'' @ fmt_int 2 (dt_month d) @ '':'' @ fmt_int 2 (dt_day d) @ '' ''
       @ fmt_int 2 (dt_hour d) @ '':'' @ fmt_int 2 (dt_minute d) @ '':'' @ fmt_int 2 (dt_second d)"

text \<open>\<^verbatim>\<open>s.lower()\<close>, on the ASCII letters.\<close>

definition lower_char :: "char \<Rightarrow> char" where
  "lower_char c =
     (case map_of (zip ''ABCDEFGHIJKLMNOPQRSTUVWXYZ'' ''abcdefghijklmnopqrstuvwxyz'') c of
        Some l \<Rightarrow> l | None \<Rightarrow> c)"

definition lower :: "string \<Rightarrow> string" where
  "lower s = map lower_char s"

text \<open>\<^verbatim>\<open>s.split(c)\<close> for a one-character separator.\<close>

fun split_on :: "char \<Rightarrow> string \<Rightarrow> string list" where
  "split_on c [] = [[]]"
| "split_on c (x # xs) =
     (if x = c then [] # split_on c xs
      else (case split_on c xs of [] \<Rightarrow> [[x]] | w # ws \<Rightarrow> (x # w) # ws))"

text \<open>\<^verbatim>\<open>s.rfind(c)\<close>: the index of the last \<open>c\<close>, or -1.\<close>

definition rfind :: "char \<Rightarrow> string \<Rightarrow> int" where
  "rfind c s =
     (if c \<in> set s then int (length s) - 1 - int (length (takeWhile (\<lambda>x. x \<noteq> c) (rev s)))
      else - 1)"

subsection \<open>pathlib\<close>

text \<open>
  Every path of the script is a file name directly inside one of five fixed folders; a path
  is the pair of the folder and the name.  \<open>path_suffix\<close>, \<open>path_stem\<close>, \<open>with_suffix\<close> and
  \<open>with_name\<close> are the \<^verbatim>\<open>pathlib\<close> operations of these names; \<open>path_name\<close> is
  \<^verbatim>\<open>Path(s).name\<close> for a string of the manifest.
\<close>

type_synonym path = "string \<times> string"

definition path_suffix :: "string \<Rightarrow> string" where
  "path_suffix name =
     (let i = rfind CHR ''.'' name
      in if 0 < i \<and> i < int (length name) - 1 then drop (nat i) name else [])"

definition path_stem :: "string \<Rightarrow> string" where
  "path_stem name =
     (let i = rfind CHR ''.'' name
      in if 0 < i \<and> i < int (length name) - 1 then take (nat i) name else name)"

definition with_name :: "path \<Rightarrow> string \<Rightarrow> path" where
  "with_name p name = (fst p, name)"

definition with_suffix :: "path \<Rightarrow> string \<Rightarrow> path" where
  "with_suffix p suffix =
     (fst p, take (length (snd p) - length (path_suffix (snd p))) (snd p) @ suffix)"

definition path_name :: "string \<Rightarrow> string" where
  "path_name s =
     (case filter (\<lambda>w. w \<noteq> [] \<and> w \<noteq> ''.'') (split_on CHR ''/'' s) of
        [] \<Rightarrow> [] | w # ws \<Rightarrow> last (w # ws))"

definition photo_folder :: string where
  "photo_folder = ''resources/data/Photos/post''"

definition bereal_folder :: string where
  "bereal_folder = ''resources/data/Photos/bereal''"

definition data_folder :: string where
  "data_folder = ''resources/data''"

definition output_folder :: string where
  "output_folder = ''out/__processed''"

definition output_folder_combined :: string where
  "output_folder_combined = ''out/__combined''"

section \<open>Files, configuration, manifest and run state\<close>

text \<open>
  Pixel data is kept symbolically: \<open>Photo n\<close> is the picture of source image number \<open>n\<close>,
  \<open>RGB b\<close> what \<^verbatim>\<open>convert('RGB')\<close> makes of \<open>b\<close>, \<open>Jpeg q b\<close> what is read back from a JPEG
  encoding of \<open>b\<close> at quality \<open>q\<close>, and \<open>Combined p s\<close> the composite that
  \<^verbatim>\<open>combine_images_with_resizing\<close> draws from primary \<open>p\<close> and secondary \<open>s\<close>.
\<close>

datatype bitmap = Photo nat | RGB bitmap | Jpeg nat bitmap | Combined bitmap bitmap

datatype fmt = WEBP | WEBP_VP8X | JPEG

record gps_ifd =
  GPSLatitudeRef :: string
  GPSLatitude :: dms
  GPSLongitudeRef :: string
  GPSLongitude :: dms

record exif =
  DateTimeOriginal :: "string option"
  GPS :: "gps_ifd option"
  ImageDescription :: "string option"

record iptc =
  caption_abstract :: "string option"
  iptc_source :: "string option"
  originating_program :: "string option"

definition empty_exif :: exif where
  "empty_exif = \<lparr>DateTimeOriginal = None, GPS = None, ImageDescription = None\<rparr>"

definition empty_iptc :: iptc where
  "empty_iptc = \<lparr>caption_abstract = None, iptc_source = None, originating_program = None\<rparr>"

text \<open>
  A file is an image, with its pixels and its two metadata blocks, or anything else (a
  video, a damaged file), told apart by a number.  The format is that of the content; the
  name of a file says nothing about it.  A WebP file is in the simple layout (\<open>WEBP\<close>) or in
  the extended one with a \<^verbatim>\<open>VP8X\<close> chunk (\<open>WEBP_VP8X\<close>), the only one that can hold metadata.
\<close>

datatype content = ImageFile fmt bitmap exif iptc | Blob nat

type_synonym filesystem = "(path, content) fmap"

record config =
  convert_to_jpeg :: bool
  keep_original_filename :: bool
  create_combined_images :: bool

text \<open>
  One record of \<^verbatim>\<open>posts.json\<close>.  \<open>takenAt\<close> is what
  \<^verbatim>\<open>datetime.strptime(entry['takenAt'], "%Y-%m-%dT%H:%M:%S.%fZ")\<close> returns, \<open>None\<close> when it
  raises \<^verbatim>\<open>ValueError\<close>.  \<open>location\<close> is the dictionary under that key, \<open>btsMedia\<close> the
  \<^verbatim>\<open>path\<close> of the dictionary under that key.  The two image paths are always present.
\<close>

type_synonym location = "(string \<times> py_float) list"

record entry =
  primary :: string
  secondary :: string
  takenAt :: "datetime option"
  location :: "location option"
  caption :: "string option"
  btsMedia :: "string option"

text \<open>An element of \<^verbatim>\<open>primary_images\<close>.\<close>

record artifact =
  art_path :: path
  art_taken_at :: datetime
  art_location :: "location option"
  art_caption :: "string option"

text \<open>The calls of \<^verbatim>\<open>logging.error\<close>, in the order of the source.\<close>

datatype log_record =
    ErrorConverting path error
  | FailedExif "path option" error
  | FailedIptc path error
  | FailedMp4 path
  | FfmpegNotFound
  | UnexpectedMp4 path error
  | CopiedWithoutMetadata path
  | ErrorProcessingEntry entry error
  | FailedConvertCombined path

record state =
  fs :: filesystem
  processed_files_count :: int
  converted_files_count :: int
  combined_files_count :: int
  skipped_files_count :: int
  primary_images :: "artifact list"
  secondary_images :: "path list"
  log :: "log_record list"

definition initial_state :: "filesystem \<Rightarrow> state" where
  "initial_state files =
     \<lparr>fs = files, processed_files_count = 0, converted_files_count = 0,
      combined_files_count = 0, skipped_files_count = 0, primary_images = [],
      secondary_images = [], log = []\<rparr>"

definition log_error :: "state \<Rightarrow> log_record \<Rightarrow> state" where
  "log_error st r = st\<lparr>log := log st @ [r]\<rparr>"

text \<open>
  What the environment decides.  \<open>ffmpeg\<close> is the external program: given the input path, the
  output path, the creation time, the location (when the manifest has both coordinates) and
  the content of the input, it is missing, or cannot be started, or exits with a code having
  written the output file or not.  \<open>jpeg_encode_fails\<close> tells the pictures that the JPEG
  encoder of the imaging library rejects, \<open>compositor_fails\<close> the exception of the imaging
  library when it resizes and pastes a pair of pictures (a secondary picture too small to be
  resized, say), if there is one.  \<open>iptc_not_jpeg\<close> is the exception with which the IPTC
  library refuses to write a file that is not a JPEG, \<open>None\<close> for a version of the library
  that returns without writing.  \<open>year_padded\<close> tells whether \<^verbatim>\<open>%Y\<close> is padded.
\<close>

datatype ffmpeg_outcome = Missing | CannotStart error | Exit int "content option"

record env =
  ZoneInfo :: "zoneinfo option"
  ffmpeg :: "path \<Rightarrow> path \<Rightarrow> datetime \<Rightarrow> (py_float \<times> py_float) option \<Rightarrow> content option
               \<Rightarrow> ffmpeg_outcome"
  jpeg_encode_fails :: "bitmap \<Rightarrow> bool"
  compositor_fails :: "bitmap \<Rightarrow> bitmap \<Rightarrow> error option"
  iptc_not_jpeg :: "error option"
  year_padded :: bool

subsection \<open>The imaging library\<close>

text \<open>\<^verbatim>\<open>Image.open(path)\<close> decodes by content.\<close>

definition image_open :: "filesystem \<Rightarrow> path \<Rightarrow> error + bitmap" where
  "image_open files p =
     (case fmlookup files p of
        None \<Rightarrow> Inl FileNotFoundError
      | Some (ImageFile f b e i) \<Rightarrow> Inr b
      | Some (Blob n) \<Rightarrow> Inl UnidentifiedImageError)"

text \<open>
  \<^verbatim>\<open>img.save(path, "JPEG", quality=q)\<close>.  The new file has no metadata.  When the encoder
  fails, the library removes the file it has just created; a file that was there before is
  left truncated.
\<close>

definition image_save :: "env \<Rightarrow> filesystem \<Rightarrow> path \<Rightarrow> bitmap \<Rightarrow> nat \<Rightarrow> (error \<times> filesystem) + filesystem" where
  "image_save e files p b q =
     (if jpeg_encode_fails e b
      then Inl (OSError, if p |\<in>| fmdom files then fmupd p (Blob 0) files else files)
      else Inr (fmupd p (ImageFile JPEG (Jpeg q b) empty_exif empty_iptc) files))"

section \<open>The format converter\<close>

text \<open>\<^verbatim>\<open>convert_webp_to_jpg(image_path)\<close>.\<close>

definition convert_webp_to_jpg :: "env \<Rightarrow> path \<Rightarrow> state \<Rightarrow> (path option \<times> bool) \<times> state" where
  "convert_webp_to_jpg e image_path st =
     (if lower (path_suffix (snd image_path)) = ''.webp''
      then
        let jpg_path = with_suffix image_path ''.jpg''
        in (case image_open (fs st) image_path of
              Inl ex \<Rightarrow> ((None, False), log_error st (ErrorConverting image_path ex))
            | Inr img \<Rightarrow>
                (case image_save e (fs st) jpg_path (RGB img) 80 of
                   Inl (ex, files) \<Rightarrow>
                     ((None, False), log_error (st\<lparr>fs := files\<rparr>) (ErrorConverting image_path ex))
                 | Inr files \<Rightarrow> ((Some jpg_path, True), st\<lparr>fs := files\<rparr>)))
      else ((Some image_path, False), st))"



section \<open>The metadata writers\<close>

subsection \<open>The EXIF block\<close>

text \<open>
  \<^verbatim>\<open>piexif.load\<close> reads a JPEG or a WebP file, told by its content.  For a WebP file
  without a \<^verbatim>\<open>VP8X\<close> chunk it raises \<^verbatim>\<open>ValueError\<close>.
\<close>

definition piexif_load :: "filesystem \<Rightarrow> path \<Rightarrow> error + (fmt \<times> bitmap \<times> exif \<times> iptc)" where
  "piexif_load files p =
     (case fmlookup files p of
        None \<Rightarrow> Inl FileNotFoundError
      | Some (Blob n) \<Rightarrow> Inl InvalidImageDataError
      | Some (ImageFile WEBP b e i) \<Rightarrow> Inl ValueError
      | Some (ImageFile f b e i) \<Rightarrow> Inr (f, b, e, i))"

text \<open>
  \<^verbatim>\<open>piexif.dump\<close> packs both parts of a rational into 32 unsigned bits and raises
  \<^verbatim>\<open>struct.error\<close> for a part outside that range.
\<close>

fun rational_ok :: "rational \<Rightarrow> bool" where
  "rational_ok (n, d) = (0 \<le> n \<and> n < 4294967296 \<and> 0 \<le> d \<and> d < 4294967296)"

fun dms_ok :: "dms \<Rightarrow> bool" where
  "dms_ok (d, m, s) = (rational_ok d \<and> rational_ok m \<and> rational_ok s)"

definition piexif_dump_ok :: "exif \<Rightarrow> bool" where
  "piexif_dump_ok e =
     (case GPS e of None \<Rightarrow> True | Some g \<Rightarrow> dms_ok (GPSLatitude g) \<and> dms_ok (GPSLongitude g))"

text \<open>
  The test \<^verbatim>\<open>location and 'latitude' in location and 'longitude' in location\<close>, giving
  the two coordinates when it holds.
\<close>

definition coordinates :: "location option \<Rightarrow> (py_float \<times> py_float) option" where
  "coordinates loc =
     (case loc of
        None \<Rightarrow> None
      | Some l \<Rightarrow>
          (case (map_of l ''latitude'', map_of l ''longitude'') of
             (Some lat, Some lon) \<Rightarrow> Some (lat, lon)
           | _ \<Rightarrow> None))"

text \<open>The dictionary \<^verbatim>\<open>gps_ifd\<close> that \<^verbatim>\<open>update_exif\<close> builds.\<close>

definition make_gps_ifd :: "py_float \<times> py_float \<Rightarrow> gps_ifd" where
  "make_gps_ifd c =
     \<lparr>GPSLatitudeRef = (if 0 \<le> fst c then ''N'' else ''S''),
      GPSLatitude = convert_to_degrees \<bar>fst c\<bar>,
      GPSLongitudeRef = (if 0 \<le> snd c then ''E'' else ''W''),
      GPSLongitude = convert_to_degrees \<bar>snd c\<bar>\<rparr>"

text \<open>\<^verbatim>\<open>if caption:\<close> holds for a caption that is present and not empty.\<close>

definition truthy :: "string option \<Rightarrow> bool" where
  "truthy c = (c \<noteq> None \<and> c \<noteq> Some [])"

text \<open>
  The dictionary that \<^verbatim>\<open>update_exif\<close> dumps, from the one it has loaded, or the exception
  of the way there.  \<open>datetime_original\<close> is UTC, so \<^verbatim>\<open>astimezone(timezone.utc)\<close> leaves it
  as it is.
\<close>

definition new_exif :: "env \<Rightarrow> exif \<Rightarrow> datetime \<Rightarrow> location option \<Rightarrow> string option
    \<Rightarrow> error + exif" where
  "new_exif e exif_dict datetime_original loc cap =
     (case utc_to_german_time (ZoneInfo e) datetime_original of
        Inl ex \<Rightarrow> Inl ex
      | Inr datetime_german \<Rightarrow>
          let datetime_str = strftime_exif (year_padded e) datetime_german;
              d1 = exif_dict\<lparr>DateTimeOriginal := Some datetime_str\<rparr>;
              d2 = (case coordinates loc of
                      None \<Rightarrow> d1
                    | Some c \<Rightarrow> d1\<lparr>GPS := Some (make_gps_ifd c)\<rparr>);
              d3 = (if truthy cap then d2\<lparr>ImageDescription := cap\<rparr> else d2)
          in if piexif_dump_ok d3 then Inr d3 else Inl StructError)"

text \<open>
  The body of the \<^verbatim>\<open>try\<close> of \<^verbatim>\<open>update_exif\<close>: the new file system, or the exception.
  The path is \<open>None\<close> when the caller passes \<^verbatim>\<open>None\<close>, which has no \<^verbatim>\<open>as_posix\<close>.
\<close>

definition exif_written :: "env \<Rightarrow> filesystem \<Rightarrow> path option \<Rightarrow> datetime \<Rightarrow> location option
    \<Rightarrow> string option \<Rightarrow> error + filesystem" where
  "exif_written e files image_path datetime_original loc cap =
     (case image_path of
        None \<Rightarrow> Inl AttributeError
      | Some p \<Rightarrow>
          (case piexif_load files p of
             Inl ex \<Rightarrow> Inl ex
           | Inr (f, b, exif_dict, ip) \<Rightarrow>
               (case new_exif e exif_dict datetime_original loc cap of
                  Inl ex \<Rightarrow> Inl ex
                | Inr d \<Rightarrow> Inr (fmupd p (ImageFile f b d ip) files))))"

text \<open>\<^verbatim>\<open>update_exif(image_path, datetime_original, location, caption)\<close>.\<close>

definition update_exif :: "env \<Rightarrow> path option \<Rightarrow> datetime \<Rightarrow> location option \<Rightarrow> string option
    \<Rightarrow> state \<Rightarrow> state" where
  "update_exif e image_path datetime_original loc cap st =
     (case exif_written e (fs st) image_path datetime_original loc cap of
        Inl ex \<Rightarrow> log_error st (FailedExif image_path ex)
      | Inr files \<Rightarrow> st\<lparr>fs := files\<rparr>)"

subsection \<open>The IPTC block\<close>

definition source_app :: string where
  "source_app = ''BeReal app''"

definition processing_tool :: string where
  "processing_tool = ''github/bereal-gdpr-photo-toolkit''"

text \<open>The backup \<^verbatim>\<open>name~\<close> that \<^verbatim>\<open>IPTCInfo.save_as\<close> leaves beside the file.\<close>

definition backup_of :: "path \<Rightarrow> path" where
  "backup_of p = (fst p, snd p @ ''~'')"

text \<open>
  \<^verbatim>\<open>update_iptc(image_path, caption)\<close>.  The IPTC library writes JPEG files only; it keeps
  the other blocks of the file and moves the old file to the backup name.  A file of any
  other content is left as it is.  \<^verbatim>\<open>str(None)\<close> is the name \<^verbatim>\<open>None\<close> in the working
  directory.
\<close>

definition str_path :: "path option \<Rightarrow> path" where
  "str_path p = (case p of None \<Rightarrow> (''.'', ''None'') | Some q \<Rightarrow> q)"

definition new_iptc :: "string option \<Rightarrow> iptc \<Rightarrow> iptc" where
  "new_iptc cap info =
     (let i1 = (if truthy cap then info\<lparr>caption_abstract := cap\<rparr> else info);
          i2 = i1\<lparr>iptc_source := Some source_app\<rparr>
      in i2\<lparr>originating_program := Some processing_tool\<rparr>)"

definition refuse_iptc :: "env \<Rightarrow> path \<Rightarrow> state \<Rightarrow> state" where
  "refuse_iptc e image_path st =
     (case iptc_not_jpeg e of
        None \<Rightarrow> st
      | Some ex \<Rightarrow> log_error st (FailedIptc image_path ex))"

definition update_iptc :: "env \<Rightarrow> path \<Rightarrow> string option \<Rightarrow> state \<Rightarrow> state" where
  "update_iptc e image_path cap st =
     (case fmlookup (fs st) image_path of
        None \<Rightarrow> log_error st (FailedIptc image_path FileNotFoundError)
      | Some (Blob n) \<Rightarrow> refuse_iptc e image_path st
      | Some (ImageFile WEBP b ex info) \<Rightarrow> refuse_iptc e image_path st
      | Some (ImageFile WEBP_VP8X b ex info) \<Rightarrow> refuse_iptc e image_path st
      | Some (ImageFile JPEG b ex info) \<Rightarrow>
          st\<lparr>fs := fmupd image_path (ImageFile JPEG b ex (new_iptc cap info))
                     (fmupd (backup_of image_path) (ImageFile JPEG b ex info) (fs st))\<rparr>)"

subsection \<open>The video container\<close>

text \<open>
  \<^verbatim>\<open>update_mp4_metadata(input_path, output_path, datetime_original, location)\<close>.  The
  command line is not spelled out: the external program gets the paths, the creation time
  and the coordinates.
\<close>

definition update_mp4_metadata :: "env \<Rightarrow> path \<Rightarrow> path \<Rightarrow> datetime \<Rightarrow> location option
    \<Rightarrow> state \<Rightarrow> bool \<times> state" where
  "update_mp4_metadata e input_path output_path datetime_original loc st =
     (case ffmpeg e input_path output_path datetime_original (coordinates loc)
             (fmlookup (fs st) input_path) of
        Missing \<Rightarrow> (False, log_error st FfmpegNotFound)
      | CannotStart ex \<Rightarrow> (False, log_error st (UnexpectedMp4 input_path ex))
      | Exit returncode written \<Rightarrow>
          let st1 = (case written of
                       None \<Rightarrow> st
                     | Some f \<Rightarrow> st\<lparr>fs := fmupd output_path f (fs st)\<rparr>)
          in if returncode \<noteq> 0 then (False, log_error st1 (FailedMp4 input_path))
             else (True, st1))"

section \<open>The image compositor\<close>

text \<open>
  \<^verbatim>\<open>combine_images_with_resizing(primary_path, secondary_path)\<close>: both files are opened,
  primary first, then the secondary picture is resized and pasted.  The geometry of the
  composite is not modelled.
\<close>

definition combine_images_with_resizing :: "env \<Rightarrow> filesystem \<Rightarrow> path \<Rightarrow> path
    \<Rightarrow> error + bitmap" where
  "combine_images_with_resizing e files primary_path secondary_path =
     (case image_open files primary_path of
        Inl ex \<Rightarrow> Inl ex
      | Inr primary_image \<Rightarrow>
          (case image_open files secondary_path of
             Inl ex \<Rightarrow> Inl ex
           | Inr secondary_image \<Rightarrow>
               (case compositor_fails e primary_image secondary_image of
                  Some ex \<Rightarrow> Inl ex
                | None \<Rightarrow> Inr (Combined primary_image secondary_image))))"


section \<open>The filename deduplicator\<close>

subsection \<open>Decimal numerals are read back\<close>

definition digit_val :: "char \<Rightarrow> nat" where
  "digit_val c = (case map_of (zip ''0123456789'' [0, 1, 2, 3, 4, 5, 6, 7, 8, 9]) c of Some d \<Rightarrow> d | None \<Rightarrow> 0)"

definition nat_of_str :: "string \<Rightarrow> nat" where
  "nat_of_str s = foldl (\<lambda>acc c. acc * 10 + digit_val c) 0 s"

lemma digit_val_digit_char: "d < 10 \<Longrightarrow> digit_val (digit_char d) = d"
proof -
  assume "d < 10"
  then have "d = 0 \<or> d = 1 \<or> d = 2 \<or> d = 3 \<or> d = 4 \<or> d = 5 \<or> d = 6 \<or> d = 7 \<or> d = 8
      \<or> d = 9" by arith
  then show ?thesis
    by (elim disjE) (simp_all add: digit_char_def digit_val_def)
qed

lemma nat_of_str_str_nat: "nat_of_str (str_nat n) = n"
proof (induction n rule: str_nat.induct)
  case (1 n)
  show ?case
  proof (cases "n < 10")
    case True
    then show ?thesis
      by (subst str_nat.simps) (simp add: nat_of_str_def digit_val_digit_char)
  next
    case False
    with 1 have "nat_of_str (str_nat (n div 10)) = n div 10" by simp
    then show ?thesis using False
      by (subst str_nat.simps) (simp add: nat_of_str_def digit_val_digit_char)
  qed
qed

lemma str_nat_inj: "str_nat a = str_nat b \<Longrightarrow> a = b"
  by (metis nat_of_str_str_nat)

text \<open>The name that the deduplicator tries at counter \<open>k\<close>.\<close>

definition numbered :: "string \<Rightarrow> string \<Rightarrow> nat \<Rightarrow> string" where
  "numbered prefix suffix k = prefix @ ''_'' @ str_nat k @ suffix"

lemma numbered_inj: "numbered prefix suffix a = numbered prefix suffix b \<Longrightarrow> a = b"
  by (simp add: numbered_def str_nat_inj)

lemma finite_numbered: "finite {k. (d, numbered prefix suffix k) \<in> fmdom' files}"
proof -
  have "inj (\<lambda>k. (d, numbered prefix suffix k))"
    by (rule injI) (simp add: numbered_inj)
  then have "finite ((\<lambda>k. (d, numbered prefix suffix k)) -` fmdom' files)"
    by (intro finite_vimageI) simp_all
  then show ?thesis by (simp add: vimage_def)
qed

subsection \<open>The loop\<close>

text \<open>
  \<^verbatim>\<open>get_unique_filename(path)\<close>.  The \<^verbatim>\<open>while path.exists()\<close> loop ends because the
  file system holds finitely many files and the numbered names are pairwise different.
\<close>

function unique_loop :: "filesystem \<Rightarrow> string \<Rightarrow> string \<Rightarrow> path \<Rightarrow> nat \<Rightarrow> path" where
  "unique_loop files prefix suffix p counter =
     (if p \<in> fmdom' files
      then unique_loop files prefix suffix (with_name p (numbered prefix suffix counter)) (counter + 1)
      else p)"
  by pat_completeness auto
termination
proof (relation "measure (\<lambda>(files, prefix, suffix, p, counter).
          card {k. counter \<le> k \<and> (fst p, numbered prefix suffix k) \<in> fmdom' files}
            + (if p \<in> fmdom' files then 1 else 0))")
  show "wf (measure (\<lambda>(files, prefix, suffix, p, counter).
          card {k. counter \<le> k \<and> (fst p, numbered prefix suffix k) \<in> fmdom' files}
            + (if p \<in> fmdom' files then 1 else 0)))" by simp
next
  fix files :: filesystem and prefix suffix :: string and p :: path and counter :: nat
  assume p: "p \<in> fmdom' files"
  define A where "A c = {k. c \<le> k \<and> (fst p, numbered prefix suffix k) \<in> fmdom' files}" for c
  have fin: "finite (A c)" for c
    using finite_numbered[of "fst p" prefix suffix files]
    by (rule rev_finite_subset) (auto simp: A_def)
  have step: "A counter = (if (fst p, numbered prefix suffix counter) \<in> fmdom' files
                then insert counter (A (Suc counter)) else A (Suc counter))"
    by (auto simp: A_def Suc_le_eq le_less)
  have notin: "counter \<notin> A (Suc counter)" by (simp add: A_def)
  have "card (A (Suc counter))
          + (if (fst p, numbered prefix suffix counter) \<in> fmdom' files then 1 else 0)
        < card (A counter) + 1"
    using fin[of "Suc counter"] notin by (subst step) simp
  then show "((files, prefix, suffix, with_name p (numbered prefix suffix counter), counter + 1),
              (files, prefix, suffix, p, counter))
             \<in> measure (\<lambda>(files, prefix, suffix, p, counter).
                 card {k. counter \<le> k \<and> (fst p, numbered prefix suffix k) \<in> fmdom' files}
                   + (if p \<in> fmdom' files then 1 else 0))"
    using p by (simp add: A_def with_name_def)
qed

declare unique_loop.simps [simp del]

definition get_unique_filename :: "filesystem \<Rightarrow> path \<Rightarrow> path" where
  "get_unique_filename files p =
     (if p \<notin> fmdom' files then p
      else
        let prefix = path_stem (snd p);
            suffix = path_suffix (snd p);
            counter = 1
        in unique_loop files prefix suffix p counter)"









section \<open>The batch orchestrator\<close>

datatype role = Primary | Secondary

fun role_str :: "role \<Rightarrow> string" where
  "role_str Primary = ''primary''"
| "role_str Secondary = ''secondary''"

text \<open>
  The body of the loop over the two roles, for one file.  The result is the exception that
  leaves the loop body, if any, and the state.  \<^verbatim>\<open>continue\<close> is a return without exception.
\<close>

definition new_filename :: "env \<Rightarrow> config \<Rightarrow> datetime \<Rightarrow> role \<Rightarrow> path \<Rightarrow> path option
    \<Rightarrow> string" where
  "new_filename e cfg taken_at r p converted_path =
     (let time_str = strftime_file (year_padded e) taken_at;
          original_filename_without_extension = path_stem (snd p)
      in if convert_to_jpeg cfg
         then if keep_original_filename cfg
              then time_str @ ''_'' @ role_str r @ ''_'' @ snd (str_path converted_path)
              else time_str @ ''_'' @ role_str r @ ''.jpg''
         else if keep_original_filename cfg
              then time_str @ ''_'' @ role_str r @ ''_'' @ original_filename_without_extension
                     @ ''.webp''
              else time_str @ ''_'' @ role_str r @ ''.webp'')"

text \<open>\<^verbatim>\<open>converted_path.rename(new_path)\<close> and \<^verbatim>\<open>shutil.copy2(path, new_path)\<close>.\<close>

definition rename_file :: "filesystem \<Rightarrow> path \<Rightarrow> path \<Rightarrow> error + filesystem" where
  "rename_file files src dst =
     (case fmlookup files src of
        None \<Rightarrow> Inl FileNotFoundError
      | Some f \<Rightarrow> Inr (fmupd dst f (fmdrop src files)))"

definition copy2 :: "filesystem \<Rightarrow> path \<Rightarrow> path \<Rightarrow> error + filesystem" where
  "copy2 files src dst =
     (case fmlookup files src of
        None \<Rightarrow> Inl FileNotFoundError
      | Some f \<Rightarrow> Inr (fmupd dst f files))"

text \<open>The steps of one file after it has been materialised at \<open>new_path\<close>.\<close>

definition record_artifact :: "env \<Rightarrow> datetime \<Rightarrow> location option \<Rightarrow> string option \<Rightarrow> role
    \<Rightarrow> path \<Rightarrow> state \<Rightarrow> state" where
  "record_artifact e taken_at loc cap r new_path st =
     (let st1 = update_exif e (Some new_path) taken_at loc cap st;
          st2 = update_iptc e new_path cap st1;
          st3 = (case r of
                   Primary \<Rightarrow>
                     st2\<lparr>primary_images := primary_images st2 @
                        [\<lparr>art_path = new_path, art_taken_at = taken_at, art_location = loc,
                          art_caption = cap\<rparr>]\<rparr>
                 | Secondary \<Rightarrow> st2\<lparr>secondary_images := secondary_images st2 @ [new_path]\<rparr>)
      in st3\<lparr>processed_files_count := processed_files_count st3 + 1\<rparr>)"

definition process_image :: "env \<Rightarrow> config \<Rightarrow> datetime \<Rightarrow> location option \<Rightarrow> string option
    \<Rightarrow> path \<Rightarrow> role \<Rightarrow> state \<Rightarrow> error option \<times> state" where
  "process_image e cfg taken_at loc cap p r st =
     (if convert_to_jpeg cfg
      then
        (case convert_webp_to_jpg e p st of
           ((None, converted), st1) \<Rightarrow>
             (None, st1\<lparr>skipped_files_count := skipped_files_count st1 + 1\<rparr>)
         | ((Some converted_path, converted), st1) \<Rightarrow>
             let st2 = (if converted
                        then st1\<lparr>converted_files_count := converted_files_count st1 + 1\<rparr>
                        else st1);
                 new_path = get_unique_filename (fs st2)
                              (output_folder, new_filename e cfg taken_at r p (Some converted_path))
             in (case (if converted then rename_file (fs st2) converted_path new_path
                       else copy2 (fs st2) p new_path) of
                   Inl ex \<Rightarrow> (Some ex, st2)
                 | Inr files \<Rightarrow>
                     (None, record_artifact e taken_at loc cap r new_path (st2\<lparr>fs := files\<rparr>))))
      else
        (let new_path = get_unique_filename (fs st)
                          (output_folder, new_filename e cfg taken_at r p None)
         in (case copy2 (fs st) p new_path of
               Inl ex \<Rightarrow> (Some ex, st)
             | Inr files \<Rightarrow>
                 (None, record_artifact e taken_at loc cap r new_path (st\<lparr>fs := files\<rparr>)))))"

text \<open>The behind-the-scenes video of a record.\<close>

definition bts_filename :: "env \<Rightarrow> config \<Rightarrow> datetime \<Rightarrow> path \<Rightarrow> string" where
  "bts_filename e cfg taken_at bts_path =
     (let time_str = strftime_file (year_padded e) taken_at;
          original_bts_stem = path_stem (snd bts_path)
      in if keep_original_filename cfg
         then time_str @ ''_bts_'' @ original_bts_stem @ ''.mp4''
         else time_str @ ''_bts.mp4'')"

definition process_bts :: "env \<Rightarrow> config \<Rightarrow> datetime \<Rightarrow> location option \<Rightarrow> string option
    \<Rightarrow> state \<Rightarrow> error option \<times> state" where
  "process_bts e cfg taken_at loc bts_media st =
     (case bts_media of
        None \<Rightarrow> (None, st)
      | Some media_path \<Rightarrow>
          if media_path = [] then (None, st)
          else
            let bts_path = (data_folder, path_name media_path)
            in if bts_path \<in> fmdom' (fs st) \<and> lower (path_suffix (snd bts_path)) = ''.mp4''
               then
                 let bts_new_path = get_unique_filename (fs st)
                                      (output_folder, bts_filename e cfg taken_at bts_path);
                     temp_output = with_suffix bts_new_path ''.tmp.mp4''
                 in (case update_mp4_metadata e bts_path temp_output taken_at loc st of
                       (True, st1) \<Rightarrow>
                         (case rename_file (fs st1) temp_output bts_new_path of
                            Inl ex \<Rightarrow> (Some ex, st1)
                          | Inr files \<Rightarrow>
                              (None, st1\<lparr>fs := files,
                                 processed_files_count := processed_files_count st1 + 1\<rparr>))
                     | (False, st1) \<Rightarrow>
                         (case copy2 (fs st1) bts_path bts_new_path of
                            Inl ex \<Rightarrow> (Some ex, st1)
                          | Inr files \<Rightarrow>
                              (None, (log_error (st1\<lparr>fs := files\<rparr>)
                                        (CopiedWithoutMetadata bts_new_path))
                                 \<lparr>processed_files_count := processed_files_count st1 + 1\<rparr>)))
               else (None, st))"

text \<open>
  The body of the \<^verbatim>\<open>try\<close> for one record, and the record with its \<^verbatim>\<open>except\<close>.
\<close>

definition entry_body :: "env \<Rightarrow> config \<Rightarrow> entry \<Rightarrow> state \<Rightarrow> error option \<times> state" where
  "entry_body e cfg en st =
     (let primary_filename = path_name (primary en);
          secondary_filename = path_name (secondary en);
          found = ((photo_folder, primary_filename) \<in> fmdom' (fs st));
          primary_path = (if found then (photo_folder, primary_filename)
                          else (bereal_folder, primary_filename));
          secondary_path = (if found then (photo_folder, secondary_filename)
                            else (bereal_folder, secondary_filename))
      in (case takenAt en of
            None \<Rightarrow> (Some ValueError, st)
          | Some taken_at \<Rightarrow>
              (case process_image e cfg taken_at (location en) (caption en) primary_path
                      Primary st of
                 (Some ex, st1) \<Rightarrow> (Some ex, st1)
               | (None, st1) \<Rightarrow>
                   (case process_image e cfg taken_at (location en) (caption en) secondary_path
                           Secondary st1 of
                      (Some ex, st2) \<Rightarrow> (Some ex, st2)
                    | (None, st2) \<Rightarrow>
                        process_bts e cfg taken_at (location en) (btsMedia en) st2))))"

definition process_entry :: "env \<Rightarrow> config \<Rightarrow> state \<Rightarrow> entry \<Rightarrow> state" where
  "process_entry e cfg st en =
     (case entry_body e cfg en st of
        (None, st1) \<Rightarrow> st1
      | (Some ex, st1) \<Rightarrow> log_error st1 (ErrorProcessingEntry en ex))"

text \<open>\<^verbatim>\<open>for entry in data:\<close>.\<close>

primrec main_loop :: "env \<Rightarrow> config \<Rightarrow> entry list \<Rightarrow> state \<Rightarrow> state" where
  "main_loop e cfg [] st = st"
| "main_loop e cfg (en # data) st = main_loop e cfg data (process_entry e cfg st en)"

subsection \<open>The combine pass\<close>

text \<open>
  The body of the loop over \<^verbatim>\<open>zip(primary_images, secondary_images)\<close>.  Nothing in the
  pass catches an exception of the compositor or of the save: it ends the run.
\<close>

definition combined_image_path :: "path \<Rightarrow> path" where
  "combined_image_path primary_new_path =
     (let timestamp = hd (split_on CHR ''_'' (path_stem (snd primary_new_path)));
          combined_filename = timestamp @ ''_combined.webp''
      in (output_folder_combined, combined_filename))"

definition combine_pair :: "env \<Rightarrow> config \<Rightarrow> artifact \<times> path \<Rightarrow> state \<Rightarrow> error option \<times> state" where
  "combine_pair e cfg pair st =
     (let primary_new_path = art_path (fst pair);
          primary_taken_at = art_taken_at (fst pair);
          primary_location = art_location (fst pair);
          primary_caption = art_caption (fst pair);
          secondary_path = snd pair;
          target = combined_image_path primary_new_path
      in (case combine_images_with_resizing e (fs st) primary_new_path secondary_path of
            Inl ex \<Rightarrow> (Some ex, st)
          | Inr combined_image \<Rightarrow>
              (case image_save e (fs st) target combined_image 75 of
                 Inl (ex, files) \<Rightarrow> (Some ex, st\<lparr>fs := files\<rparr>)
               | Inr files \<Rightarrow>
                   let st1 = st\<lparr>fs := files, combined_files_count := combined_files_count st + 1\<rparr>;
                       st2 = update_exif e (Some target) primary_taken_at primary_location
                               primary_caption st1;
                       st3 = update_iptc e target primary_caption st2
                   in if convert_to_jpeg cfg
                      then
                        (case convert_webp_to_jpg e target st3 of
                           ((converted_path, converted), st4) \<Rightarrow>
                             let st5 = update_exif e converted_path primary_taken_at
                                         primary_location primary_caption st4;
                                 st6 = update_iptc e (str_path converted_path) primary_caption st5
                             in (None, if converted_path = None
                                       then log_error st6 (FailedConvertCombined target)
                                       else st6))
                      else (None, st3))))"

primrec combine_loop :: "env \<Rightarrow> config \<Rightarrow> (artifact \<times> path) list \<Rightarrow> state \<Rightarrow> error option \<times> state" where
  "combine_loop e cfg [] st = (None, st)"
| "combine_loop e cfg (pair # pairs) st =
     (case combine_pair e cfg pair st of
        (Some ex, st1) \<Rightarrow> (Some ex, st1)
      | (None, st1) \<Rightarrow> combine_loop e cfg pairs st1)"

text \<open>\<^verbatim>\<open>remove_backup_files(directory)\<close>.\<close>

definition remove_backup_files :: "string \<Rightarrow> state \<Rightarrow> state" where
  "remove_backup_files directory st =
     st\<lparr>fs := fmfilter (\<lambda>p. \<not> (fst p = directory \<and> snd p \<noteq> [] \<and> last (snd p) = CHR ''~''))
                 (fs st)\<rparr>"

text \<open>
  The script from the loaded manifest to the summary: the exception that ended it, if any,
  and the final state.
\<close>

definition run :: "env \<Rightarrow> config \<Rightarrow> entry list \<Rightarrow> filesystem \<Rightarrow> error option \<times> state" where
  "run e cfg data files =
     (let st1 = main_loop e cfg data (initial_state files)
      in if create_combined_images cfg
         then
           (case combine_loop e cfg (zip (primary_images st1) (secondary_images st1)) st1 of
              (Some ex, st2) \<Rightarrow> (Some ex, st2)
            | (None, st2) \<Rightarrow>
                (None, remove_backup_files output_folder_combined
                         (remove_backup_files output_folder st2)))
         else (None, remove_backup_files output_folder st1))"


section \<open>Runs of the orchestrator\<close>

subsection \<open>Three clips of the same second\<close>





















section \<open>Properties of the steps\<close>

subsection \<open>An environment and a configuration for the instances\<close>

text \<open>
  No \<^verbatim>\<open>zoneinfo\<close> module, no transcoder, an encoder and a compositor that never fail, an
  IPTC library that raises for a file that is not a JPEG.  The configuration is the one of the
  scenario of the specification: conversion on, original names not kept, combined images
  made.
\<close>

definition plain_env :: env where
  "plain_env = \<lparr>ZoneInfo = None, ffmpeg = (\<lambda>i out t c f. Missing),
                 jpeg_encode_fails = (\<lambda>b. False), compositor_fails = (\<lambda>p s. None),
                 iptc_not_jpeg = Some AttributeError, year_padded = True\<rparr>"

definition default_config :: config where
  "default_config = \<lparr>convert_to_jpeg = True, keep_original_filename = False,
                      create_combined_images = True\<rparr>"

subsection \<open>Folders and names\<close>

lemma folders_distinct:
  "output_folder \<noteq> data_folder" "data_folder \<noteq> output_folder"
  "output_folder \<noteq> photo_folder" "output_folder \<noteq> bereal_folder"
  "photo_folder \<noteq> output_folder" "bereal_folder \<noteq> output_folder"
  "output_folder_combined \<noteq> output_folder" "output_folder \<noteq> output_folder_combined"
  "output_folder_combined \<noteq> photo_folder" "output_folder_combined \<noteq> bereal_folder"
  "output_folder_combined \<noteq> data_folder" "photo_folder \<noteq> bereal_folder"
  "bereal_folder \<noteq> photo_folder"
  by (simp_all add: output_folder_def data_folder_def photo_folder_def bereal_folder_def
        output_folder_combined_def)

lemma unique_loop_fst: "fst (unique_loop files prefix suffix p c) = fst p"
proof (induction files prefix suffix p c rule: unique_loop.induct)
  case (1 files prefix suffix p c)
  show ?case
  proof (cases "p \<in> fmdom' files")
    case True
    with 1 show ?thesis by (subst unique_loop.simps) (simp add: with_name_def)
  next
    case False
    then show ?thesis by (subst unique_loop.simps) simp
  qed
qed

lemma get_unique_filename_fst: "fst (get_unique_filename files p) = fst p"
  by (simp add: get_unique_filename_def unique_loop_fst Let_def)


subsection \<open>A conversion that fails\<close>








subsection \<open>A transcoder that fails\<close>

text \<open>
  Claim C6.  Whenever the transcoder is missing or exits with a code other than zero, the
  video metadata writer logs the failure and returns \<^verbatim>\<open>False\<close>; it is a total function, so
  nothing is raised.  The caller then copies the clip as it is to the derived output path and
  adds one to the processed counter; the skipped counter stays as it was.  The hypotheses
  say that the record names a clip, that the clip is in the data folder and has the suffix
  \<^verbatim>\<open>.mp4\<close>, and how the transcoder fails.
\<close>

theorem bts_fallback_copy:
  assumes media: "bts_media = Some m" "m \<noteq> []"
      and video: "fmlookup (fs st) (data_folder, path_name m) = Some video"
      and mp4: "lower (path_suffix (path_name m)) = ''.mp4''"
      and new: "bts_new_path = get_unique_filename (fs st)
                  (output_folder, bts_filename e cfg taken_at (data_folder, path_name m))"
      and fail: "ffmpeg e (data_folder, path_name m) (with_suffix bts_new_path ''.tmp.mp4'')
                   taken_at (coordinates loc) (Some video) = Missing
                 \<or> (\<exists>code written. code \<noteq> 0 \<and>
                       ffmpeg e (data_folder, path_name m) (with_suffix bts_new_path ''.tmp.mp4'')
                         taken_at (coordinates loc) (Some video) = Exit code written)"
  shows "\<exists>r st1 st2.
           update_mp4_metadata e (data_folder, path_name m) (with_suffix bts_new_path ''.tmp.mp4'')
               taken_at loc st = (False, st1)
         \<and> log st1 = log st @ [r] \<and> (r = FfmpegNotFound \<or> r = FailedMp4 (data_folder, path_name m))
         \<and> process_bts e cfg taken_at loc bts_media st = (None, st2)
         \<and> fmlookup (fs st2) bts_new_path = Some video
         \<and> processed_files_count st2 = processed_files_count st + 1
         \<and> skipped_files_count st2 = skipped_files_count st
         \<and> log st2 = log st1 @ [CopiedWithoutMetadata bts_new_path]"
proof -
  let ?src = "(data_folder, path_name m)"
  let ?tmp = "with_suffix bts_new_path ''.tmp.mp4''"
  have dom: "?src \<in> fmdom' (fs st)" using video by (simp add: fmdom'I)
  have tmp_ne: "?tmp \<noteq> ?src"
    using get_unique_filename_fst[of "fs st" "(output_folder, bts_filename e cfg taken_at ?src)"]
    by (auto simp: new with_suffix_def folders_distinct)
  from fail obtain r st1 where
    u: "update_mp4_metadata e ?src ?tmp taken_at loc st = (False, st1)" and
    l: "log st1 = log st @ [r]" and
    r: "r = FfmpegNotFound \<or> r = FailedMp4 ?src" and
    keep: "fmlookup (fs st1) ?src = Some video" and
    cnt: "processed_files_count st1 = processed_files_count st"
         "skipped_files_count st1 = skipped_files_count st"
  proof
    assume a: "ffmpeg e ?src ?tmp taken_at (coordinates loc) (Some video) = Missing"
    show ?thesis
      by (rule that[of "log_error st FfmpegNotFound" FfmpegNotFound])
         (simp_all add: update_mp4_metadata_def video a log_error_def)
  next
    assume "\<exists>code written. code \<noteq> 0 \<and>
              ffmpeg e ?src ?tmp taken_at (coordinates loc) (Some video) = Exit code written"
    then obtain code written where c: "code \<noteq> 0"
      and a: "ffmpeg e ?src ?tmp taken_at (coordinates loc) (Some video) = Exit code written"
      by blast
    show ?thesis
    proof (cases written)
      case None
      show ?thesis
        by (rule that[of "log_error st (FailedMp4 ?src)" "FailedMp4 ?src"])
           (simp_all add: update_mp4_metadata_def video a c None log_error_def)
    next
      case (Some f)
      show ?thesis
        by (rule that[of "log_error (st\<lparr>fs := fmupd ?tmp f (fs st)\<rparr>) (FailedMp4 ?src)"
                         "FailedMp4 ?src"])
           (use tmp_ne in \<open>simp_all add: update_mp4_metadata_def video a c Some log_error_def\<close>)
    qed
  qed
  have "process_bts e cfg taken_at loc bts_media st
          = (None, (log_error (st1\<lparr>fs := fmupd bts_new_path video (fs st1)\<rparr>)
                      (CopiedWithoutMetadata bts_new_path))
                   \<lparr>processed_files_count := processed_files_count st1 + 1\<rparr>)"
    using media dom mp4 u keep
    by (simp add: process_bts_def Let_def new[symmetric] copy2_def)
  with u l r cnt show ?thesis
    by (intro exI[of _ r] exI[of _ st1]
          exI[of _ "(log_error (st1\<lparr>fs := fmupd bts_new_path video (fs st1)\<rparr>)
                      (CopiedWithoutMetadata bts_new_path))
                   \<lparr>processed_files_count := processed_files_count st1 + 1\<rparr>"])
       (simp add: log_error_def)
qed

text \<open>
  An instance: no transcoder is installed.  The clip \<^verbatim>\<open>foo.mp4\<close> is copied to
  \<^verbatim>\<open>2024-07-15T12-00-00_bts.mp4\<close> and counted as processed.
\<close>

definition one_clip :: state where
  "one_clip = initial_state (fmupd (data_folder, ''foo.mp4'') (Blob 2) fmempty)"

definition scenario_time :: datetime where
  "scenario_time = datetime_of 2024 7 15 12 0 0 0"

lemma scenario_time_str: "strftime_file True scenario_time = ''2024-07-15T12-00-00''"
  unfolding scenario_time_def by code_simp

lemma foo_mp4:
  "path_name ''bts/foo.mp4'' = ''foo.mp4''"
  "lower (path_suffix ''foo.mp4'') = ''.mp4''"
  by (simp_all add: path_name_def path_suffix_def rfind_def lower_def lower_char_def)

lemma one_clip_new_path:
  "get_unique_filename (fs one_clip)
       (output_folder, bts_filename plain_env default_config scenario_time (data_folder, ''foo.mp4''))
     = (output_folder, ''2024-07-15T12-00-00_bts.mp4'')"
  by (simp add: get_unique_filename_def one_clip_def initial_state_def bts_filename_def
        default_config_def plain_env_def scenario_time_str folders_distinct)

theorem bts_fallback_copy_witness:
  "fmlookup (fs one_clip) (data_folder, path_name ''bts/foo.mp4'') = Some (Blob 2)
   \<and> lower (path_suffix (path_name ''bts/foo.mp4'')) = ''.mp4''
   \<and> ffmpeg plain_env (data_folder, path_name ''bts/foo.mp4'')
         (with_suffix (output_folder, ''2024-07-15T12-00-00_bts.mp4'') ''.tmp.mp4'')
         scenario_time (coordinates None) (Some (Blob 2)) = Missing
   \<and> (\<exists>st2. process_bts plain_env default_config scenario_time None (Some ''bts/foo.mp4'') one_clip
                 = (None, st2)
            \<and> fmlookup (fs st2) (output_folder, ''2024-07-15T12-00-00_bts.mp4'') = Some (Blob 2)
            \<and> processed_files_count st2 = 1
            \<and> skipped_files_count st2 = 0
            \<and> log st2 = [FfmpegNotFound,
                  CopiedWithoutMetadata (output_folder, ''2024-07-15T12-00-00_bts.mp4'')])"
proof -
  have v: "fmlookup (fs one_clip) (data_folder, path_name ''bts/foo.mp4'') = Some (Blob 2)"
    by (simp add: one_clip_def initial_state_def foo_mp4)
  have s: "lower (path_suffix (path_name ''bts/foo.mp4'')) = ''.mp4''"
    by (simp add: foo_mp4)
  have n: "(output_folder, ''2024-07-15T12-00-00_bts.mp4'')
             = get_unique_filename (fs one_clip)
                 (output_folder, bts_filename plain_env default_config scenario_time
                    (data_folder, path_name ''bts/foo.mp4''))"
    by (simp add: foo_mp4 one_clip_new_path)
  have f: "ffmpeg plain_env (data_folder, path_name ''bts/foo.mp4'')
         (with_suffix (output_folder, ''2024-07-15T12-00-00_bts.mp4'') ''.tmp.mp4'')
         scenario_time (coordinates None) (Some (Blob 2)) = Missing"
    by (simp add: plain_env_def)
  from bts_fallback_copy[of "Some ''bts/foo.mp4''" "''bts/foo.mp4''" one_clip "Blob 2"
      "(output_folder, ''2024-07-15T12-00-00_bts.mp4'')" plain_env default_config scenario_time
      None, OF refl _ v s n disjI1[OF f]]
  obtain r st1 st2 where
    u: "update_mp4_metadata plain_env (data_folder, path_name ''bts/foo.mp4'')
          (with_suffix (output_folder, ''2024-07-15T12-00-00_bts.mp4'') ''.tmp.mp4'')
          scenario_time None one_clip = (False, st1)"
    and l: "log st1 = log one_clip @ [r]"
    and p: "process_bts plain_env default_config scenario_time None (Some ''bts/foo.mp4'') one_clip
              = (None, st2)"
           "fmlookup (fs st2) (output_folder, ''2024-07-15T12-00-00_bts.mp4'') = Some (Blob 2)"
           "processed_files_count st2 = processed_files_count one_clip + 1"
           "skipped_files_count st2 = skipped_files_count one_clip"
           "log st2 = log st1 @ [CopiedWithoutMetadata (output_folder, ''2024-07-15T12-00-00_bts.mp4'')]"
    by auto
  have "st1 = log_error one_clip FfmpegNotFound"
    using u by (simp add: update_mp4_metadata_def plain_env_def)
  with l have "log st1 = [FfmpegNotFound]"
    by (simp add: log_error_def one_clip_def initial_state_def)
  with p v s f show ?thesis
    by (simp add: one_clip_def initial_state_def)
qed


end
